theory Spec2Isabelle
  imports Main "HOL-Library.Sublist"
begin

section \<open>The tools of \<^verbatim>\<open>src/app/main.py\<close>\<close>

text \<open>
  The module defines two coroutines, \<^verbatim>\<open>hello_world\<close> and \<^verbatim>\<open>google_search\<close>,
  and two module globals read from the environment. The embedding follows the file from
  top to bottom: Python values first, then the module globals, then the two tools as
  functions that take the state of the process and return their outcome with the new
  state. Where the file calls into the interpreter and its library (\<^verbatim>\<open>int\<close>,
  \<^verbatim>\<open>str\<close>, \<^verbatim>\<open>logging\<close>, \<^verbatim>\<open>asyncio\<close>), the model follows CPython 3.11.
\<close>

subsection \<open>Exceptions\<close>

text \<open>
  The classes an exception is told apart by on its way through \<^verbatim>\<open>google_search\<close>.
  The handler of line 76, \<^verbatim>\<open>except Exception as e\<close>, takes the instances of
  \<^verbatim>\<open>Exception\<close> and lets every other instance of \<^verbatim>\<open>BaseException\<close> pass
  (\<^verbatim>\<open>asyncio.CancelledError\<close>, \<^verbatim>\<open>SystemExit\<close>, \<^verbatim>\<open>KeyboardInterrupt\<close>,
  \<^verbatim>\<open>GeneratorExit\<close>). Among the instances of \<^verbatim>\<open>Exception\<close>, \<^verbatim>\<open>asyncio\<close> treats two
  classes apart when it carries the outcome of the worker thread over to the coroutine:
  an exception whose class is exactly \<^verbatim>\<open>StopIteration\<close>, and one whose class is
  exactly \<^verbatim>\<open>concurrent.futures.CancelledError\<close>. \<open>OtherException\<close> is every other
  instance of \<^verbatim>\<open>Exception\<close> that is not a \<^verbatim>\<open>StopIteration\<close>; an instance of a proper
  subclass of \<^verbatim>\<open>StopIteration\<close> is none of the five and is left out of the model.
\<close>

datatype exc_class =
    StopIteration
  | FuturesCancelledError
  | OtherException
  | AsyncioCancelledError
  | OtherBaseException

fun is_Exception :: "exc_class \<Rightarrow> bool" where
  "is_Exception StopIteration = True"
| "is_Exception FuturesCancelledError = True"
| "is_Exception OtherException = True"
| "is_Exception AsyncioCancelledError = False"
| "is_Exception OtherBaseException = False"

text \<open>
  An exception is its class and what the handler does with it: the f-string of line 77
  formats it (\<^verbatim>\<open>__format__\<close>, which is \<^verbatim>\<open>str(e)\<close> unless the class says otherwise),
  and line 78 calls \<^verbatim>\<open>str(e)\<close>. Each of the two returns a text or raises an exception
  in turn. \<open>PyExc c f t\<close> is an exception of class \<open>c\<close> that line 77 formats as \<open>f\<close>
  and whose \<^verbatim>\<open>str\<close> at line 78 is \<open>t\<close>; \<open>plain c text\<close> is the common case, where both
  are the text of the exception.
\<close>

datatype py_exception = PyExc exc_class str_result str_result
  and str_result = Str string | StrRaises py_exception

definition plain :: "exc_class \<Rightarrow> string \<Rightarrow> py_exception" where
  "plain c text = PyExc c (Str text) (Str text)"

text \<open>An outcome is the value a call returns (\<open>Inr\<close>) or the exception it raises (\<open>Inl\<close>).\<close>

type_synonym 'a outcome = "py_exception + 'a"

subsection \<open>Integers and text\<close>

text \<open>The decimal digits of a natural number.\<close>

fun str_nat :: "nat \<Rightarrow> string" where
  "str_nat n =
     (if n < 10 then [char_of (48 + n)]
      else str_nat (n div 10) @ [char_of (48 + n mod 10)])"

declare str_nat.simps [simp del]

text \<open>
  \<^verbatim>\<open>str(n)\<close> of an integer, as an f-string formats it. The interpreter refuses to write
  an integer of more than \<^verbatim>\<open>sys.get_int_max_str_digits()\<close> digits and raises
  \<^verbatim>\<open>ValueError\<close>; the limit is 4300 unless the process is started with another one,
  which nothing in the repository does.
\<close>

definition int_max_str_digits :: nat where
  "int_max_str_digits = 4300"

definition fits_str_digits :: "int \<Rightarrow> bool" where
  "fits_str_digits i = (length (str_nat (nat \<bar>i\<bar>)) \<le> int_max_str_digits)"

definition str_digits_ValueError :: py_exception where
  "str_digits_ValueError =
     plain OtherException
       ''Exceeds the limit (4300 digits) for integer string conversion; use sys.set_int_max_str_digits() to increase the limit''"

definition str_int :: "int \<Rightarrow> string outcome" where
  "str_int i =
     (if fits_str_digits i
      then Inr (if i < 0 then CHR ''-'' # str_nat (nat (- i)) else str_nat (nat i))
      else Inl str_digits_ValueError)"

text \<open>
  The builtin \<^verbatim>\<open>int\<close> on a string is a parameter of the module below: it also reads
  the decimal digits and the spaces of the whole of Unicode, which are no part of this
  theory. \<open>ascii_int\<close> reads the ASCII literals as the builtin does, base 10: white
  space around the literal is dropped, a sign may come first, the digits may be grouped
  by single underscores, and a literal of more than 4300 digits is refused. \<open>None\<close> is
  the \<^verbatim>\<open>ValueError\<close>. It stands for the builtin in the examples, whose strings
  are ASCII.
\<close>

definition is_space :: "char \<Rightarrow> bool" where
  "is_space c = (c \<in> set [CHR '' '', CHR 0x09, CHR 0x0A, CHR 0x0B, CHR 0x0C, CHR 0x0D])"

definition strip :: "string \<Rightarrow> string" where
  "strip s = rev (dropWhile is_space (rev (dropWhile is_space s)))"

definition digit_val :: "char \<Rightarrow> nat option" where
  "digit_val c =
     (let k = (of_char c :: nat) in if 48 \<le> k \<and> k \<le> 57 then Some (k - 48) else None)"

fun parse_digits :: "nat \<Rightarrow> string \<Rightarrow> nat option" where
  "parse_digits acc [] = Some acc"
| "parse_digits acc [c] =
     (case digit_val c of None \<Rightarrow> None | Some v \<Rightarrow> Some (10 * acc + v))"
| "parse_digits acc (c # d # ds) =
     (if c = CHR ''_'' then
        (case digit_val d of None \<Rightarrow> None | Some v \<Rightarrow> parse_digits (10 * acc + v) ds)
      else
        (case digit_val c of None \<Rightarrow> None | Some v \<Rightarrow> parse_digits (10 * acc + v) (d # ds)))"

definition parse_unsigned :: "string \<Rightarrow> nat option" where
  "parse_unsigned s =
     (if int_max_str_digits < length (filter (\<lambda>c. c \<noteq> CHR ''_'') s) then None
      else case s of
        [] \<Rightarrow> None
      | c # cs \<Rightarrow> (case digit_val c of None \<Rightarrow> None | Some v \<Rightarrow> parse_digits v cs))"

definition ascii_int :: "string \<Rightarrow> int option" where
  "ascii_int s =
     (case strip s of
        [] \<Rightarrow> None
      | c # cs \<Rightarrow>
          if c = CHR ''-'' then map_option (\<lambda>n. - int n) (parse_unsigned cs)
          else if c = CHR ''+'' then map_option int (parse_unsigned cs)
          else map_option int (parse_unsigned (c # cs)))"

subsection \<open>The module globals and the state of the process\<close>

text \<open>
  \<^verbatim>\<open>os.getenv(key, default)\<close> on the environment as \<^verbatim>\<open>load_dotenv()\<close> left it.
\<close>

definition os_getenv :: "(string \<rightharpoonup> string) \<Rightarrow> string \<Rightarrow> string \<Rightarrow> string" where
  "os_getenv env key dflt = (case env key of None \<Rightarrow> dflt | Some v \<Rightarrow> v)"

datatype level = INFO | ERROR

text \<open>
  The state a tool call can see: the two module globals of lines 21 and 22, the records
  handed to \<^verbatim>\<open>logger\<close> (oldest first, whatever the level the handlers filter at),
  and \<open>world\<close>, all that lies outside the process and that the search provider talks to.
\<close>

record 'w process =
  GOOGLE_SEARCH_USER_AGENT :: string
  GOOGLE_SEARCH_MAX_RESULTS :: int
  logged :: "(level \<times> string) list"
  world :: 'w

text \<open>
  Lines 14 to 22, run once when the module is imported, after the imports and
  \<^verbatim>\<open>load_dotenv()\<close> of lines 1 to 11. Two things come from the interpreter and its
  library and are parameters: \<open>builtin_int\<close>, the builtin \<^verbatim>\<open>int\<close> on a string
  (\<open>None\<close> where it raises), and \<open>takes_level\<close>, which says of a name whether
  \<^verbatim>\<open>getattr(logging, name)\<close> exists and \<^verbatim>\<open>logging.basicConfig\<close> takes it as a level.
  Line 15 fails the import on any other \<^verbatim>\<open>LOG_LEVEL\<close>, and line 22 on a
  \<^verbatim>\<open>GOOGLE_SEARCH_MAX_RESULTS\<close> that \<^verbatim>\<open>int\<close> refuses: \<open>None\<close>.
\<close>

definition module_globals ::
  "(string \<Rightarrow> int option) \<Rightarrow> (string \<Rightarrow> bool) \<Rightarrow> (string \<rightharpoonup> string) \<Rightarrow> 'w \<Rightarrow> 'w process option" where
  "module_globals builtin_int takes_level env w =
     (if takes_level (os_getenv env ''LOG_LEVEL'' ''INFO'') then
        (case builtin_int (os_getenv env ''GOOGLE_SEARCH_MAX_RESULTS'' ''10'') of
           None \<Rightarrow> None
         | Some n \<Rightarrow>
             Some \<lparr> GOOGLE_SEARCH_USER_AGENT =
                      os_getenv env ''GOOGLE_SEARCH_USER_AGENT'' ''Mozilla/5.0'',
                    GOOGLE_SEARCH_MAX_RESULTS = n,
                    logged = [],
                    world = w \<rparr>)
      else None)"

definition logger_info :: "string \<Rightarrow> 'w process \<Rightarrow> 'w process" where
  "logger_info msg s = s\<lparr> logged := logged s @ [(INFO, msg)] \<rparr>"

definition logger_error :: "string \<Rightarrow> 'w process \<Rightarrow> 'w process" where
  "logger_error msg s = s\<lparr> logged := logged s @ [(ERROR, msg)] \<rparr>"

subsection \<open>\<^verbatim>\<open>hello_world\<close>\<close>

text \<open>
  Lines 31 to 40. The argument is \<open>None\<close> when the caller leaves \<^verbatim>\<open>name\<close> out, and the
  default of the signature, \<^verbatim>\<open>"World"\<close>, takes its place.
\<close>

definition hello_world :: "string option \<Rightarrow> 'w process \<Rightarrow> string outcome \<times> 'w process" where
  "hello_world name_arg s =
     (let name = (case name_arg of None \<Rightarrow> ''World'' | Some n \<Rightarrow> n);
          s1 = logger_info (''Saying hello to '' @ name) s
      in (Inr (''Hello, '' @ name @ ''! Welcome to Manus MCP.''), s1))"

subsection \<open>The provider and the executor\<close>

text \<open>
  The provider is \<^verbatim>\<open>googlesearch.search\<close>, a third-party function: it is a parameter.
  \<open>search query num_results user_agent w\<close> is what the job of line 68,
  \<^verbatim>\<open>lambda: list(search(query, num_results=num_results, user_agent=GOOGLE_SEARCH_USER_AGENT))\<close>,
  does when a worker thread runs it in the world \<open>w\<close>: the list of links it returns or
  the exception it raises, and the world after the call.
\<close>

type_synonym 'w provider =
  "string \<Rightarrow> int \<Rightarrow> string \<Rightarrow> 'w \<Rightarrow> string list outcome \<times> 'w"

text \<open>
  What the event loop does with the job of one invocation is the other parameter:
  \<^item> \<open>Completes\<close>: the executor takes the job, a worker runs it, and the task is resumed
    with its outcome;
  \<^item> \<open>Refuses text\<close>: \<^verbatim>\<open>loop.run_in_executor\<close> raises \<^verbatim>\<open>RuntimeError(text)\<close> before
    the job is handed over (the executor is shut down, no thread can be started);
  \<^item> \<open>CancelledQueued msg\<close>: the task is cancelled while the job waits in the queue of
    the executor; the job is cancelled with it and never runs;
  \<^item> \<open>CancelledRunning msg\<close>: the task is cancelled after a worker has taken the job;
    the job runs, and its outcome is dropped.
\<close>

datatype loop_behaviour =
    Completes
  | Refuses string
  | CancelledQueued string
  | CancelledRunning string

text \<open>
  How the outcome of the worker thread reaches the coroutine
  (\<^verbatim>\<open>asyncio.futures._copy_future_state\<close>): an exception of class
  \<^verbatim>\<open>concurrent.futures.CancelledError\<close> is replaced by an \<^verbatim>\<open>asyncio.CancelledError\<close>
  with the same arguments, and a \<^verbatim>\<open>StopIteration\<close> cannot be set on the future, which
  then never completes: \<open>None\<close>, the coroutine waits for ever.
\<close>

fun copy_future_state :: "'a outcome \<Rightarrow> 'a outcome option" where
  "copy_future_state (Inr v) = Some (Inr v)"
| "copy_future_state (Inl (PyExc StopIteration f t)) = None"
| "copy_future_state (Inl (PyExc FuturesCancelledError f t)) =
     Some (Inl (PyExc AsyncioCancelledError f t))"
| "copy_future_state (Inl (PyExc OtherException f t)) = Some (Inl (PyExc OtherException f t))"
| "copy_future_state (Inl (PyExc AsyncioCancelledError f t)) =
     Some (Inl (PyExc AsyncioCancelledError f t))"
| "copy_future_state (Inl (PyExc OtherBaseException f t)) =
     Some (Inl (PyExc OtherBaseException f t))"

text \<open>
  \<^verbatim>\<open>await loop.run_in_executor(None, job)\<close>, lines 66 to 73: what the coroutine gets
  back (\<open>None\<close> when it is never resumed) and the world after.
\<close>

definition await_run_in_executor ::
  "loop_behaviour \<Rightarrow> ('w \<Rightarrow> 'a outcome \<times> 'w) \<Rightarrow> 'w \<Rightarrow> 'a outcome option \<times> 'w" where
  "await_run_in_executor loop job w =
     (case loop of
        Completes \<Rightarrow> (let (r, w') = job w in (copy_future_state r, w'))
      | Refuses text \<Rightarrow> (Some (Inl (plain OtherException text)), w)
      | CancelledQueued msg \<Rightarrow> (Some (Inl (plain AsyncioCancelledError msg)), w)
      | CancelledRunning msg \<Rightarrow>
          (let (r, w') = job w in (Some (Inl (plain AsyncioCancelledError msg)), w')))"

subsection \<open>\<^verbatim>\<open>google_search\<close>\<close>

text \<open>Lines 58 and 59: \<^verbatim>\<open>num_results\<close> is \<open>None\<close> when the caller leaves it out or passes \<^verbatim>\<open>null\<close>.\<close>

definition num_results_of :: "int option \<Rightarrow> 'w process \<Rightarrow> int" where
  "num_results_of num_results_arg s =
     (case num_results_arg of None \<Rightarrow> GOOGLE_SEARCH_MAX_RESULTS s | Some n \<Rightarrow> n)"

text \<open>
  Lines 44 to 78. The outcome is \<open>None\<close> when the coroutine never returns.
  \<^item> Line 61 stands before the \<^verbatim>\<open>try\<close>: when its f-string cannot write
    \<^verbatim>\<open>num_results\<close>, the \<^verbatim>\<open>ValueError\<close> goes to the caller and nothing else happens.
  \<^item> Lines 66 to 73 are inside the \<^verbatim>\<open>try\<close>.
  \<^item> Line 74 writes \<^verbatim>\<open>len(links)\<close>, which is at most \<^verbatim>\<open>sys.maxsize\<close> and has 19
    digits at most: it is always written.
  \<^item> The handler of line 76 takes the instances of \<^verbatim>\<open>Exception\<close>. Line 77 formats
    \<^verbatim>\<open>e\<close> and logs the text, then line 78 calls \<^verbatim>\<open>str(e)\<close>: where either raises,
    that exception leaves the handler and goes to the caller.
\<close>

definition google_search ::
  "'w provider \<Rightarrow> loop_behaviour \<Rightarrow> string \<Rightarrow> int option \<Rightarrow> 'w process
     \<Rightarrow> string list outcome option \<times> 'w process" where
  "google_search search loop query num_results_arg s =
     (let num_results = num_results_of num_results_arg s
      in case str_int num_results of
           Inl e \<Rightarrow> (Some (Inl e), s)
         | Inr digits \<Rightarrow>
             (let s1 = logger_info
                         (''Performing Google search for: '' @ query @
                          '' (max results: '' @ digits @ '')'') s;
                  (r, w) = await_run_in_executor loop
                             (search query num_results (GOOGLE_SEARCH_USER_AGENT s1)) (world s1);
                  s2 = s1\<lparr> world := w \<rparr>
              in case r of
                   None \<Rightarrow> (None, s2)
                 | Some (Inr links) \<Rightarrow>
                     (Some (Inr links),
                      logger_info
                        (''Found '' @ str_nat (length links) @ '' results for query: '' @ query) s2)
                 | Some (Inl (PyExc c f t)) \<Rightarrow>
                     if is_Exception c then
                       (case f of
                          StrRaises x \<Rightarrow> (Some (Inl x), s2)
                        | Str written \<Rightarrow>
                            (let s3 = logger_error
                                        (''Error performing Google search: '' @ written) s2
                             in case t of
                                  StrRaises x \<Rightarrow> (Some (Inl x), s3)
                                | Str e \<Rightarrow> (Some (Inr [''Error performing search: '' @ e]), s3)))
                     else (Some (Inl (PyExc c f t)), s2)))"

section \<open>What the properties are stated with\<close>

text \<open>
  The answer of the provider to the call of an invocation: the query as given, the number
  of results as lines 58 and 59 settle it, the user agent of line 21, in the world the
  process is in.
\<close>

definition provider_outcome ::
  "'w provider \<Rightarrow> string \<Rightarrow> int option \<Rightarrow> 'w process \<Rightarrow> string list outcome" where
  "provider_outcome search query num_results_arg s =
     fst (search query (num_results_of num_results_arg s) (GOOGLE_SEARCH_USER_AGENT s) (world s))"

text \<open>
  The shape of a reported failure: a list of exactly one string, with
  \<^verbatim>\<open>"Error performing search"\<close> somewhere in it.
\<close>

definition error_shaped :: "string list outcome option \<Rightarrow> bool" where
  "error_shaped r =
     (case r of Some (Inr [m]) \<Rightarrow> sublist ''Error performing search'' m | _ \<Rightarrow> False)"


text \<open>Whether the job is run at all.\<close>

fun runs_job :: "loop_behaviour \<Rightarrow> bool" where
  "runs_job Completes = True"
| "runs_job (CancelledRunning msg) = True"
| "runs_job (Refuses text) = False"
| "runs_job (CancelledQueued msg) = False"

text \<open>
  A provider that keeps a record of its calls: \<open>recording search\<close> answers as \<open>search\<close>
  does and appends the arguments of each call to a list carried in the world. What an
  invocation adds to the list is what it asked of the provider.
\<close>

type_synonym provider_call = "string \<times> int \<times> string"

definition recording :: "'w provider \<Rightarrow> ('w \<times> provider_call list) provider" where
  "recording search query num_results user_agent wc =
     (let (r, w') = search query num_results user_agent (fst wc)
      in (r, (w', snd wc @ [(query, num_results, user_agent)])))"

definition calls_of :: "('w \<times> provider_call list) process \<Rightarrow> provider_call list" where
  "calls_of s = snd (world s)"

definition unrecorded :: "('w \<times> provider_call list) process \<Rightarrow> 'w process" where
  "unrecorded s =
     \<lparr> GOOGLE_SEARCH_USER_AGENT = GOOGLE_SEARCH_USER_AGENT s,
       GOOGLE_SEARCH_MAX_RESULTS = GOOGLE_SEARCH_MAX_RESULTS s,
       logged = logged s,
       world = fst (world s) \<rparr>"

text \<open>Providers, a table of level names and a process to run the tools on.\<close>

definition raising :: "py_exception \<Rightarrow> 'w provider" where
  "raising e query num_results user_agent w = (Inl e, w)"

definition returning :: "string list \<Rightarrow> 'w provider" where
  "returning links query num_results user_agent w = (Inr links, w)"

definition standard_level :: "string \<Rightarrow> bool" where
  "standard_level name =
     (name \<in> set [''CRITICAL'', ''ERROR'', ''WARNING'', ''INFO'', ''DEBUG'', ''NOTSET''])"

definition example_process :: "unit process" where
  "example_process =
     \<lparr> GOOGLE_SEARCH_USER_AGENT = ''Mozilla/5.0'',
       GOOGLE_SEARCH_MAX_RESULTS = 10,
       logged = [],
       world = () \<rparr>"

definition recorded_process :: "(unit \<times> provider_call list) process" where
  "recorded_process =
     \<lparr> GOOGLE_SEARCH_USER_AGENT = ''Mozilla/5.0'',
       GOOGLE_SEARCH_MAX_RESULTS = 10,
       logged = [],
       world = ((), []) \<rparr>"

section \<open>Properties of \<^verbatim>\<open>google_search\<close>\<close>

subsection \<open>Writing integers\<close>

lemma length_str_nat_less_10: "n < 10 \<Longrightarrow> length (str_nat n) = 1"
  by (subst str_nat.simps) simp

lemma fits_str_digits_small: "\<bar>i\<bar> < 10 \<Longrightarrow> fits_str_digits i"
  by (simp add: fits_str_digits_def int_max_str_digits_def length_str_nat_less_10)

lemma fits_str_digits_10: "fits_str_digits 10"
proof -
  have "str_nat 10 = str_nat 1 @ [char_of (48 + (0::nat))]"
    by (subst str_nat.simps) simp
  then have "length (str_nat 10) = 2"
    by (simp add: length_str_nat_less_10)
  then show ?thesis
    by (simp add: fits_str_digits_def int_max_str_digits_def)
qed



lemma fits_example_3: "fits_str_digits (num_results_of (Some 3) s)"
  by (simp add: num_results_of_def fits_str_digits_small)

lemma fits_example_default: "fits_str_digits (num_results_of None example_process)"
  by (simp add: num_results_of_def example_process_def fits_str_digits_10)

subsection \<open>What an invocation returns\<close>

text \<open>The outcome of an invocation, case by case.\<close>

lemma fst_google_search:
  "fst (google_search search loop query num_results s) =
     (if fits_str_digits (num_results_of num_results s) then
        (case loop of
           Completes \<Rightarrow>
             (case provider_outcome search query num_results s of
                Inr links \<Rightarrow> Some (Inr links)
              | Inl (PyExc c f t) \<Rightarrow>
                  (case c of
                     StopIteration \<Rightarrow> None
                   | FuturesCancelledError \<Rightarrow> Some (Inl (PyExc AsyncioCancelledError f t))
                   | OtherException \<Rightarrow>
                       (case f of
                          StrRaises x \<Rightarrow> Some (Inl x)
                        | Str written \<Rightarrow>
                            (case t of
                               StrRaises x \<Rightarrow> Some (Inl x)
                             | Str e \<Rightarrow> Some (Inr [''Error performing search: '' @ e])))
                   | AsyncioCancelledError \<Rightarrow> Some (Inl (PyExc AsyncioCancelledError f t))
                   | OtherBaseException \<Rightarrow> Some (Inl (PyExc OtherBaseException f t))))
         | Refuses why \<Rightarrow> Some (Inr [''Error performing search: '' @ why])
         | CancelledQueued msg \<Rightarrow> Some (Inl (plain AsyncioCancelledError msg))
         | CancelledRunning msg \<Rightarrow> Some (Inl (plain AsyncioCancelledError msg)))
      else Some (Inl str_digits_ValueError))"
proof (cases "fits_str_digits (num_results_of num_results s)")
  case False
  then show ?thesis by (simp add: google_search_def str_int_def Let_def)
next
  case True
  obtain r w where rw:
    "search query (num_results_of num_results s) (GOOGLE_SEARCH_USER_AGENT s) (world s) = (r, w)"
    by (cases "search query (num_results_of num_results s) (GOOGLE_SEARCH_USER_AGENT s) (world s)")
  show ?thesis
  proof (cases loop)
    case Completes
    show ?thesis
    proof (cases r)
      case (Inr links)
      with True rw Completes show ?thesis
        by (simp add: google_search_def provider_outcome_def await_run_in_executor_def
            str_int_def logger_info_def Let_def)
    next
      case (Inl e)
      obtain c f t where e: "e = PyExc c f t" by (cases e)
      from True rw Completes Inl e show ?thesis
        by (cases c; cases f; cases t)
           (simp_all add: google_search_def provider_outcome_def await_run_in_executor_def
             str_int_def logger_info_def logger_error_def Let_def)
    qed
  next
    case (Refuses why)
    with True show ?thesis
      by (simp add: google_search_def await_run_in_executor_def str_int_def logger_info_def
          logger_error_def plain_def Let_def)
  next
    case (CancelledQueued msg)
    with True show ?thesis
      by (simp add: google_search_def await_run_in_executor_def str_int_def logger_info_def
          plain_def Let_def)
  next
    case (CancelledRunning msg)
    with True rw show ?thesis
      by (simp add: google_search_def await_run_in_executor_def str_int_def logger_info_def
          plain_def Let_def)
  qed
qed

lemma error_shaped_message: "error_shaped (Some (Inr [''Error performing search'' @ rest]))"
  by (simp add: error_shaped_def)


text \<open>
  C1, as the code has it. Take any query and any \<^verbatim>\<open>num_results\<close> of at most 4300
  digits, and let the job complete. When the provider raises an instance of
  \<^verbatim>\<open>Exception\<close>, of a class other than \<^verbatim>\<open>StopIteration\<close> and
  \<^verbatim>\<open>concurrent.futures.CancelledError\<close>, that line 77 can format and whose
  \<^verbatim>\<open>str\<close> returns the text \<open>e\<close>, the invocation returns the list of the one string
  \<^verbatim>\<open>"Error performing search: "\<close> followed by \<open>e\<close>, which is of the shape of a
  reported failure. The claim says this of any exception.
\<close>

theorem google_search_reports_Exception:
  assumes "fits_str_digits (num_results_of num_results s)"
    and "provider_outcome search query num_results s = Inl (PyExc OtherException (Str written) (Str e))"
  shows "fst (google_search search Completes query num_results s)
           = Some (Inr [''Error performing search: '' @ e])
       \<and> error_shaped (fst (google_search search Completes query num_results s))"
proof -
  have r: "fst (google_search search Completes query num_results s)
             = Some (Inr [''Error performing search: '' @ e])"
    using assms by (simp add: fst_google_search)
  have "error_shaped (Some (Inr [''Error performing search'' @ ('': '' @ e)]))"
    by (rule error_shaped_message)
  with r show ?thesis by simp
qed

theorem google_search_reports_Exception_witness:
  "fits_str_digits (num_results_of (Some 3) example_process)
   \<and> provider_outcome (raising (plain OtherException ''timed out'')) ''weather today'' (Some 3)
       example_process = Inl (PyExc OtherException (Str ''timed out'') (Str ''timed out''))
   \<and> fst (google_search (raising (plain OtherException ''timed out'')) Completes
            ''weather today'' (Some 3) example_process)
     = Some (Inr [''Error performing search: timed out''])
   \<and> error_shaped
       (fst (google_search (raising (plain OtherException ''timed out'')) Completes
               ''weather today'' (Some 3) example_process))"
proof -
  have f: "fits_str_digits (num_results_of (Some 3) example_process)"
    by (rule fits_example_3)
  have h: "provider_outcome (raising (plain OtherException ''timed out'')) ''weather today''
             (Some 3) example_process = Inl (PyExc OtherException (Str ''timed out'') (Str ''timed out''))"
    by (simp add: provider_outcome_def raising_def plain_def)
  from google_search_reports_Exception [OF f h]
  have a: "fst (google_search (raising (plain OtherException ''timed out'')) Completes
                  ''weather today'' (Some 3) example_process)
             = Some (Inr [''Error performing search: timed out''])"
    by simp
  from google_search_reports_Exception [OF f h]
  have b: "error_shaped
             (fst (google_search (raising (plain OtherException ''timed out'')) Completes
                     ''weather today'' (Some 3) example_process))"
    by (rule conjunct2)
  from f h a b show ?thesis by blast
qed

text \<open>
  C1 as stated fails where the provider raises \<^verbatim>\<open>SystemExit(1)\<close>, whose text is
  \<^verbatim>\<open>"1"\<close>: the provider has raised, and what the invocation comes back with is not a
  list of one string, it is the exception, which the handler of line 76 does not take.
\<close>

theorem google_search_SystemExit_not_reported:
  "fits_str_digits (num_results_of (Some 3) example_process)
   \<and> isl (provider_outcome (raising (plain OtherBaseException ''1'')) ''weather today'' (Some 3)
            example_process)
   \<and> fst (google_search (raising (plain OtherBaseException ''1'')) Completes ''weather today''
            (Some 3) example_process)
     = Some (Inl (plain OtherBaseException ''1''))
   \<and> \<not> error_shaped
         (fst (google_search (raising (plain OtherBaseException ''1'')) Completes
                 ''weather today'' (Some 3) example_process))"
  by (simp add: fst_google_search fits_example_3 provider_outcome_def raising_def plain_def error_shaped_def)

text \<open>
  The other exceptions of the provider that are not reported, although they are instances
  of \<^verbatim>\<open>Exception\<close>: a \<^verbatim>\<open>concurrent.futures.CancelledError\<close> reaches the coroutine
  as an \<^verbatim>\<open>asyncio.CancelledError\<close>, which the handler does not take; after a
  \<^verbatim>\<open>StopIteration\<close> the coroutine is never resumed; and an exception that cannot
  be written makes line 77 or line 78 raise inside the handler.
\<close>

lemma google_search_FuturesCancelledError_not_reported:
  "fits_str_digits (num_results_of num_results s) \<Longrightarrow>
   provider_outcome search query num_results s = Inl (PyExc FuturesCancelledError f t) \<Longrightarrow>
   fst (google_search search Completes query num_results s)
     = Some (Inl (PyExc AsyncioCancelledError f t))"
  by (simp add: fst_google_search)

lemma google_search_StopIteration_never_returns:
  "fits_str_digits (num_results_of num_results s) \<Longrightarrow>
   provider_outcome search query num_results s = Inl (PyExc StopIteration f t) \<Longrightarrow>
   fst (google_search search Completes query num_results s) = None"
  by (simp add: fst_google_search)

lemma google_search_format_raises:
  "fits_str_digits (num_results_of num_results s) \<Longrightarrow>
   provider_outcome search query num_results s = Inl (PyExc OtherException (StrRaises x) t) \<Longrightarrow>
   fst (google_search search Completes query num_results s) = Some (Inl x)"
  by (simp add: fst_google_search)

lemma google_search_str_raises:
  "fits_str_digits (num_results_of num_results s) \<Longrightarrow>
   provider_outcome search query num_results s
     = Inl (PyExc OtherException (Str written) (StrRaises x)) \<Longrightarrow>
   fst (google_search search Completes query num_results s) = Some (Inl x)"
  by (simp add: fst_google_search)

text \<open>
  What the event loop adds: a task cancelled at the \<^verbatim>\<open>await\<close> raises
  \<^verbatim>\<open>asyncio.CancelledError\<close> to the caller whatever the provider does, and an executor
  that refuses the job has its \<^verbatim>\<open>RuntimeError\<close> reported as a search failure.
\<close>

lemma google_search_cancelled:
  "fits_str_digits (num_results_of num_results s) \<Longrightarrow>
   fst (google_search search (CancelledRunning msg) query num_results s)
     = Some (Inl (plain AsyncioCancelledError msg))"
  by (simp add: fst_google_search)

lemma google_search_refused:
  "fits_str_digits (num_results_of num_results s) \<Longrightarrow>
   fst (google_search search (Refuses why) query num_results s)
     = Some (Inr [''Error performing search: '' @ why])"
  by (simp add: fst_google_search)




text \<open>
  C3, as the code has it. For every query and every limit \<open>N\<close>, an invocation with
  \<^verbatim>\<open>num_results = N\<close> that succeeds (line 61 has written \<open>N\<close>, the job has completed
  and the provider has returned) returns a list exactly as long as the one the provider
  produced, so of length at most \<open>N\<close> whenever the provider produced at most \<open>N\<close>
  links. Lines 66 to 75 hand the list on and never cut it.
\<close>

theorem google_search_length_of_provider:
  assumes "fits_str_digits N"
    and "provider_outcome search query (Some N) s = Inr links"
  shows "\<exists>out. fst (google_search search Completes query (Some N) s) = Some (Inr out)
             \<and> length out = length links
             \<and> (int (length links) \<le> N \<longrightarrow> int (length out) \<le> N)"
  using assms by (simp add: fst_google_search num_results_of_def)

theorem google_search_length_of_provider_witness:
  "fits_str_digits 3
   \<and> provider_outcome (returning [''a.com'', ''b.com'', ''c.com'']) ''weather today'' (Some 3)
       example_process = Inr [''a.com'', ''b.com'', ''c.com'']
   \<and> int (length [''a.com'', ''b.com'', ''c.com'']) \<le> 3
   \<and> (\<exists>out. fst (google_search (returning [''a.com'', ''b.com'', ''c.com'']) Completes
                     ''weather today'' (Some 3) example_process) = Some (Inr out)
            \<and> length out = length [''a.com'', ''b.com'', ''c.com'']
            \<and> int (length out) \<le> 3)"
proof -
  have f: "fits_str_digits 3"
    by (simp add: fits_str_digits_small)
  have h: "provider_outcome (returning [''a.com'', ''b.com'', ''c.com'']) ''weather today'' (Some 3)
             example_process = Inr [''a.com'', ''b.com'', ''c.com'']"
    by (simp add: provider_outcome_def returning_def)
  have l: "int (length [''a.com'', ''b.com'', ''c.com'']) \<le> 3"
    by simp
  from f h l google_search_length_of_provider [OF f h] show ?thesis by blast
qed

text \<open>
  C3 as stated fails on the scenario of the specification: asked for 3 results, a
  provider that produces four links has all four returned.
\<close>

theorem google_search_four_links_for_limit_three:
  "fst (google_search (returning [''a.com'', ''b.com'', ''c.com'', ''d.com'']) Completes
          ''weather today'' (Some 3) example_process)
     = Some (Inr [''a.com'', ''b.com'', ''c.com'', ''d.com''])
   \<and> \<not> int (length [''a.com'', ''b.com'', ''c.com'', ''d.com'']) \<le> 3"
  by (simp add: fst_google_search fits_example_3 provider_outcome_def returning_def)

text \<open>
  C5. On a successful invocation (line 61 has written \<^verbatim>\<open>num_results\<close>, the job has
  completed and the provider has returned the list \<open>links\<close>), the invocation returns
  \<open>links\<close> itself: the same elements in the same order, none dropped, none added.
\<close>

theorem google_search_returns_provider_links:
  assumes "fits_str_digits (num_results_of num_results s)"
    and "provider_outcome search query num_results s = Inr links"
  shows "fst (google_search search Completes query num_results s) = Some (Inr links)"
  using assms by (simp add: fst_google_search)

theorem google_search_returns_provider_links_witness:
  "fits_str_digits (num_results_of None example_process)
   \<and> provider_outcome (returning [''b.com'', ''a.com'']) ''weather today'' None example_process
     = Inr [''b.com'', ''a.com'']
   \<and> fst (google_search (returning [''b.com'', ''a.com'']) Completes ''weather today'' None
            example_process)
     = Some (Inr [''b.com'', ''a.com''])"
proof -
  have f: "fits_str_digits (num_results_of None example_process)"
    by (rule fits_example_default)
  have h: "provider_outcome (returning [''b.com'', ''a.com'']) ''weather today'' None example_process
             = Inr [''b.com'', ''a.com'']"
    by (simp add: provider_outcome_def returning_def)
  from f h google_search_returns_provider_links [OF f h] show ?thesis by blast
qed

subsection \<open>What an invocation asks of the provider\<close>

text \<open>
  The world after an invocation, and with it the record of the calls: the provider is
  called when line 61 has written \<^verbatim>\<open>num_results\<close> and the job is run, and not
  otherwise.
\<close>

lemma world_google_search:
  "world (snd (google_search search loop query num_results s)) =
     (if fits_str_digits (num_results_of num_results s) \<and> runs_job loop
      then snd (search query (num_results_of num_results s) (GOOGLE_SEARCH_USER_AGENT s) (world s))
      else world s)"
  by (cases loop)
     (auto simp add: google_search_def await_run_in_executor_def
        str_int_def logger_info_def logger_error_def Let_def
      split: prod.splits sum.splits py_exception.splits str_result.splits option.splits)

lemma calls_of_google_search:
  "calls_of (snd (google_search (recording search) loop query num_results s)) =
     calls_of s @
       (if fits_str_digits (num_results_of num_results s) \<and> runs_job loop
        then [(query, num_results_of num_results s, GOOGLE_SEARCH_USER_AGENT s)] else [])"
  by (simp add: calls_of_def world_google_search recording_def Let_def split: prod.splits)

text \<open>Keeping the record changes nothing of what the provider answers or the tool returns.\<close>

lemma num_results_of_unrecorded:
  "num_results_of num_results (unrecorded s) = num_results_of num_results s"
  by (cases num_results) (simp_all add: num_results_of_def unrecorded_def)

lemma provider_outcome_recording:
  "provider_outcome (recording search) query num_results s =
     provider_outcome search query num_results (unrecorded s)"
proof -
  have "GOOGLE_SEARCH_USER_AGENT (unrecorded s) = GOOGLE_SEARCH_USER_AGENT s"
    and "world (unrecorded s) = fst (world s)"
    by (simp_all add: unrecorded_def)
  then show ?thesis
    by (simp add: provider_outcome_def recording_def num_results_of_unrecorded Let_def
        split: prod.splits)
qed

lemma fst_google_search_recording:
  "fst (google_search (recording search) loop query num_results s) =
     fst (google_search search loop query num_results (unrecorded s))"
  unfolding fst_google_search provider_outcome_recording num_results_of_unrecorded ..

text \<open>
  C6, as the code has it. Whatever the provider and the event loop do, an invocation adds
  at most one call to the record, and exactly one when line 61 has written
  \<^verbatim>\<open>num_results\<close> and the job is run. Where that call raises an exception the handler
  reports, the invocation returns the reported failure and the one call is all there is:
  nothing is tried again. The claim says exactly one call for every invocation.
\<close>

theorem google_search_calls_provider_at_most_once:
  "length (calls_of (snd (google_search (recording search) loop query num_results s)))
     \<le> length (calls_of s) + 1
   \<and> (fits_str_digits (num_results_of num_results s) \<and> runs_job loop \<longrightarrow>
        length (calls_of (snd (google_search (recording search) loop query num_results s)))
          = length (calls_of s) + 1)
   \<and> (fits_str_digits (num_results_of num_results s)
        \<and> provider_outcome (recording search) query num_results s
            = Inl (PyExc OtherException (Str written) (Str e)) \<longrightarrow>
        fst (google_search (recording search) Completes query num_results s)
          = Some (Inr [''Error performing search: '' @ e])
        \<and> length (calls_of (snd (google_search (recording search) Completes query num_results s)))
          = length (calls_of s) + 1)"
  by (simp add: calls_of_google_search fst_google_search)

theorem google_search_calls_provider_at_most_once_witness:
  "fits_str_digits (num_results_of (Some 3) recorded_process)
   \<and> runs_job Completes
   \<and> provider_outcome (recording (raising (plain OtherException ''timed out'')))
       ''weather today'' (Some 3) recorded_process
     = Inl (PyExc OtherException (Str ''timed out'') (Str ''timed out''))
   \<and> length (calls_of (snd (google_search (recording (raising (plain OtherException ''timed out'')))
                              Completes ''weather today'' (Some 3) recorded_process))) = 1
   \<and> fst (google_search (recording (raising (plain OtherException ''timed out''))) Completes
            ''weather today'' (Some 3) recorded_process)
     = Some (Inr [''Error performing search: timed out''])"
proof -
  have f: "fits_str_digits (num_results_of (Some 3) recorded_process)"
    by (rule fits_example_3)
  have h: "provider_outcome (recording (raising (plain OtherException ''timed out'')))
             ''weather today'' (Some 3) recorded_process
             = Inl (PyExc OtherException (Str ''timed out'') (Str ''timed out''))"
    by (simp add: provider_outcome_def recording_def raising_def plain_def)
  have c: "calls_of recorded_process = []"
    by (simp add: calls_of_def recorded_process_def)
  from google_search_calls_provider_at_most_once
         [of "raising (plain OtherException ''timed out'')" Completes "''weather today''"
             "Some 3" recorded_process "''timed out''"] f h c
  show ?thesis by simp
qed

text \<open>
  C6 as stated fails where the executor has been shut down: \<^verbatim>\<open>run_in_executor\<close>,
  inside the \<^verbatim>\<open>try\<close>, raises before the job is handed over, the failure is
  reported, and the provider has not been called.
\<close>

theorem google_search_refused_calls_nothing:
  "fst (google_search (recording (returning [''a.com''])) (Refuses ''Executor shutdown has been called'')
          ''weather today'' (Some 3) recorded_process)
     = Some (Inr [''Error performing search: Executor shutdown has been called''])
   \<and> calls_of (snd (google_search (recording (returning [''a.com'']))
                      (Refuses ''Executor shutdown has been called'')
                      ''weather today'' (Some 3) recorded_process)) = []"
proof -
  have c: "calls_of recorded_process = []"
    by (simp add: calls_of_def recorded_process_def)
  then show ?thesis
    by (simp add: fst_google_search calls_of_google_search fits_example_3)
qed




subsection \<open>The configured maximum\<close>

lemma ascii_int_10: "ascii_int ''10'' = Some 10"
  by (simp add: ascii_int_def strip_def is_space_def parse_unsigned_def digit_val_def
      int_max_str_digits_def)

lemma ascii_int_25: "ascii_int ''25'' = Some 25"
  by (simp add: ascii_int_def strip_def is_space_def parse_unsigned_def digit_val_def
      int_max_str_digits_def)

lemma standard_level_INFO: "standard_level (os_getenv Map.empty ''LOG_LEVEL'' ''INFO'')"
  by (simp add: standard_level_def os_getenv_def)

text \<open>
  C4. An invocation without \<^verbatim>\<open>num_results\<close> is the invocation with the module global
  \<^verbatim>\<open>GOOGLE_SEARCH_MAX_RESULTS\<close> in its place, and the call the provider receives asks
  for that many results. The global is read from the environment when the module is
  imported: it is \<^verbatim>\<open>int("10")\<close>, that is 10, where the variable is not set, and the
  integer the variable spells where it is set.
\<close>

theorem google_search_default_num_results:
  "google_search search loop query None s
     = google_search search loop query (Some (GOOGLE_SEARCH_MAX_RESULTS s)) s
   \<and> (fits_str_digits (GOOGLE_SEARCH_MAX_RESULTS t) \<and> runs_job loop \<longrightarrow>
        calls_of (snd (google_search (recording search) loop query None t))
          = calls_of t @ [(query, GOOGLE_SEARCH_MAX_RESULTS t, GOOGLE_SEARCH_USER_AGENT t)])
   \<and> (takes_level (os_getenv env ''LOG_LEVEL'' ''INFO'')
        \<and> env ''GOOGLE_SEARCH_MAX_RESULTS'' = None
        \<and> builtin_int ''10'' = Some 10 \<longrightarrow>
        map_option GOOGLE_SEARCH_MAX_RESULTS (module_globals builtin_int takes_level env w)
          = Some 10)
   \<and> (takes_level (os_getenv env ''LOG_LEVEL'' ''INFO'')
        \<and> env ''GOOGLE_SEARCH_MAX_RESULTS'' = Some v
        \<and> builtin_int v = Some n \<longrightarrow>
        map_option GOOGLE_SEARCH_MAX_RESULTS (module_globals builtin_int takes_level env w)
          = Some n)"
proof -
  have a: "google_search search loop query None s
             = google_search search loop query (Some (GOOGLE_SEARCH_MAX_RESULTS s)) s"
    by (simp add: google_search_def num_results_of_def)
  have b: "fits_str_digits (GOOGLE_SEARCH_MAX_RESULTS t) \<and> runs_job loop \<longrightarrow>
        calls_of (snd (google_search (recording search) loop query None t))
          = calls_of t @ [(query, GOOGLE_SEARCH_MAX_RESULTS t, GOOGLE_SEARCH_USER_AGENT t)]"
    by (simp add: calls_of_google_search num_results_of_def)
  have c: "takes_level (os_getenv env ''LOG_LEVEL'' ''INFO'')
        \<and> env ''GOOGLE_SEARCH_MAX_RESULTS'' = None
        \<and> builtin_int ''10'' = Some 10 \<longrightarrow>
        map_option GOOGLE_SEARCH_MAX_RESULTS (module_globals builtin_int takes_level env w)
          = Some 10"
    by (simp add: module_globals_def os_getenv_def)
  have d: "takes_level (os_getenv env ''LOG_LEVEL'' ''INFO'')
        \<and> env ''GOOGLE_SEARCH_MAX_RESULTS'' = Some v
        \<and> builtin_int v = Some n \<longrightarrow>
        map_option GOOGLE_SEARCH_MAX_RESULTS (module_globals builtin_int takes_level env w)
          = Some n"
    by (simp add: module_globals_def os_getenv_def)
  from a b c d show ?thesis by blast
qed

theorem google_search_default_num_results_witness:
  "fits_str_digits (GOOGLE_SEARCH_MAX_RESULTS recorded_process)
   \<and> runs_job Completes
   \<and> calls_of (snd (google_search (recording (returning [])) Completes ''weather today'' None
                      recorded_process))
     = [(''weather today'', 10, ''Mozilla/5.0'')]
   \<and> standard_level (os_getenv Map.empty ''LOG_LEVEL'' ''INFO'')
   \<and> Map.empty ''GOOGLE_SEARCH_MAX_RESULTS'' = (None :: string option)
   \<and> ascii_int ''10'' = Some 10
   \<and> map_option GOOGLE_SEARCH_MAX_RESULTS (module_globals ascii_int standard_level Map.empty ())
     = Some 10
   \<and> standard_level (os_getenv [''GOOGLE_SEARCH_MAX_RESULTS'' \<mapsto> ''25''] ''LOG_LEVEL'' ''INFO'')
   \<and> [''GOOGLE_SEARCH_MAX_RESULTS'' \<mapsto> ''25''] ''GOOGLE_SEARCH_MAX_RESULTS'' = Some ''25''
   \<and> ascii_int ''25'' = Some 25
   \<and> map_option GOOGLE_SEARCH_MAX_RESULTS
       (module_globals ascii_int standard_level [''GOOGLE_SEARCH_MAX_RESULTS'' \<mapsto> ''25''] ())
     = Some 25"
proof -
  have f: "fits_str_digits (GOOGLE_SEARCH_MAX_RESULTS recorded_process)"
    by (simp add: recorded_process_def fits_str_digits_10)
  have r: "runs_job Completes" by simp
  have c: "calls_of recorded_process = []"
    and u: "GOOGLE_SEARCH_USER_AGENT recorded_process = ''Mozilla/5.0''"
    and m: "GOOGLE_SEARCH_MAX_RESULTS recorded_process = 10"
    by (simp_all add: calls_of_def recorded_process_def)
  have l1: "standard_level (os_getenv Map.empty ''LOG_LEVEL'' ''INFO'')"
    by (rule standard_level_INFO)
  have l2: "standard_level (os_getenv [''GOOGLE_SEARCH_MAX_RESULTS'' \<mapsto> ''25''] ''LOG_LEVEL'' ''INFO'')"
    by (simp add: standard_level_def os_getenv_def)
  have e1: "Map.empty ''GOOGLE_SEARCH_MAX_RESULTS'' = (None :: string option)"
    and e2: "[''GOOGLE_SEARCH_MAX_RESULTS'' \<mapsto> ''25''] ''GOOGLE_SEARCH_MAX_RESULTS'' = Some ''25''"
    by simp_all
  note w1 = google_search_default_num_results
      [where search = "returning []" and loop = Completes and query = "''weather today''"
         and s = example_process and t = recorded_process and takes_level = standard_level
         and env = Map.empty and builtin_int = ascii_int and w = "()" and v = "''25''" and n = 25]
  note w2 = google_search_default_num_results
      [where search = "returning []" and loop = Completes and query = "''weather today''"
         and s = example_process and t = recorded_process and takes_level = standard_level
         and env = "[''GOOGLE_SEARCH_MAX_RESULTS'' \<mapsto> ''25'']" and builtin_int = ascii_int
         and w = "()" and v = "''25''" and n = 25]
  from w1 f r c u m have p1:
    "calls_of (snd (google_search (recording (returning [])) Completes ''weather today'' None
                      recorded_process))
     = [(''weather today'', 10, ''Mozilla/5.0'')]"
    by simp
  from w1 l1 e1 ascii_int_10 have p2:
    "map_option GOOGLE_SEARCH_MAX_RESULTS (module_globals ascii_int standard_level Map.empty ())
     = Some 10"
    by blast
  from w2 l2 e2 ascii_int_25 have p3:
    "map_option GOOGLE_SEARCH_MAX_RESULTS
       (module_globals ascii_int standard_level [''GOOGLE_SEARCH_MAX_RESULTS'' \<mapsto> ''25''] ())
     = Some 25"
    by blast
  from f r p1 l1 e1 ascii_int_10 p2 l2 e2 ascii_int_25 p3 show ?thesis
    by blast
qed

section \<open>Properties of \<^verbatim>\<open>hello_world\<close> and of both tools\<close>

text \<open>
  C9. For every name, \<^verbatim>\<open>hello_world\<close> returns \<^verbatim>\<open>"Hello, "\<close>, the name and
  \<^verbatim>\<open>"! Welcome to Manus MCP."\<close> in one string; a call without the name is the call
  with \<^verbatim>\<open>"World"\<close>; the outcome is always a returned value, never an exception.
\<close>

theorem hello_world_greeting:
  "fst (hello_world (Some name) s) = Inr (''Hello, '' @ name @ ''! Welcome to Manus MCP.'')
   \<and> hello_world None s = hello_world (Some ''World'') s"
  by (simp add: hello_world_def)

theorem hello_world_greeting_witness:
  "fst (hello_world (Some ''Ada'') example_process) = Inr ''Hello, Ada! Welcome to Manus MCP.''
   \<and> fst (hello_world None example_process) = Inr ''Hello, World! Welcome to Manus MCP.''"
  using hello_world_greeting [of "''Ada''" example_process]
        hello_world_greeting [of "''World''" example_process]
  by simp

lemma snd_google_search_globals:
  "GOOGLE_SEARCH_MAX_RESULTS (snd (google_search search loop query num_results s))
     = GOOGLE_SEARCH_MAX_RESULTS s"
  "GOOGLE_SEARCH_USER_AGENT (snd (google_search search loop query num_results s))
     = GOOGLE_SEARCH_USER_AGENT s"
  by (cases loop;
      auto simp add: google_search_def await_run_in_executor_def
        str_int_def logger_info_def logger_error_def Let_def
      split: prod.splits sum.splits py_exception.splits str_result.splits option.splits)+

text \<open>
  C10. The two module globals are the same after a call of either tool as before it,
  whatever the arguments, the provider, the event loop and the outcome; this holds where
  \<^verbatim>\<open>num_results\<close> is left out as well, since line 59 assigns to the parameter.
\<close>

theorem tools_keep_module_globals:
  "GOOGLE_SEARCH_MAX_RESULTS (snd (google_search search loop query num_results s))
     = GOOGLE_SEARCH_MAX_RESULTS s
   \<and> GOOGLE_SEARCH_USER_AGENT (snd (google_search search loop query num_results s))
     = GOOGLE_SEARCH_USER_AGENT s
   \<and> GOOGLE_SEARCH_MAX_RESULTS (snd (hello_world name s)) = GOOGLE_SEARCH_MAX_RESULTS s
   \<and> GOOGLE_SEARCH_USER_AGENT (snd (hello_world name s)) = GOOGLE_SEARCH_USER_AGENT s"
  by (simp add: snd_google_search_globals hello_world_def logger_info_def Let_def)

theorem tools_keep_module_globals_witness:
  "GOOGLE_SEARCH_MAX_RESULTS
     (snd (google_search (returning [''a.com'']) Completes ''weather today'' None example_process))
     = 10
   \<and> GOOGLE_SEARCH_USER_AGENT
       (snd (google_search (returning [''a.com'']) Completes ''weather today'' None example_process))
     = ''Mozilla/5.0''
   \<and> GOOGLE_SEARCH_MAX_RESULTS (snd (hello_world None example_process)) = 10
   \<and> GOOGLE_SEARCH_USER_AGENT (snd (hello_world None example_process)) = ''Mozilla/5.0''"
  using tools_keep_module_globals
          [of "returning [''a.com'']" Completes "''weather today''" None example_process None]
  by (simp add: example_process_def)

end
